theory Spec2Isabelle
  imports Complex_Main "HOL-Library.Word"
begin

section \<open>Values\<close>

text \<open>
  A UUID is a 128-bit number. A timestamp is the reading of \<^verbatim>\<open>datetime.now(tz=TZINFO)\<close>, an
  instant counted in microseconds; the functions that read the clock take the reading as
  their argument \<open>now\<close>, and \<^verbatim>\<open>uuid4()\<close> likewise becomes an argument. A \<^verbatim>\<open>Decimal\<close> is a
  finite decimal number, taken as the rational number it denotes: \<open>+\<close>, unary minus and
  \<open><\<close> are those of the numbers, as Python computes them while a sum fits the 28 digits of
  the default context (\<^verbatim>\<open>Decimal("5.00") == Decimal("5")\<close> holds in Python too).
\<close>

type_synonym uuid = "128 word"
type_synonym datetime = int
type_synonym decimal = rat

text \<open>
  Exceptions as values. The two errors of the bank account hold
  \<^verbatim>\<open>{"account_id": self.id}\<close>.
\<close>

datatype error =
    VersionError
  | TypeError
  | AssertionError
  | AccountClosedError uuid
  | InsufficientFundsError uuid

section \<open>Events and aggregates\<close>

text \<open>
  The module \<^verbatim>\<open>eventsourcing.domain\<close> (the classes \<^verbatim>\<open>Aggregate\<close>, \<^verbatim>\<open>Aggregate.Event\<close>,
  \<^verbatim>\<open>Aggregate.Created\<close> and \<^verbatim>\<open>VersionError\<close>) is not among the source files: the bank account
  and the tests import it. Its records and functions in this section follow sections 3 and
  4.1 of the specification.
\<close>

text \<open>
  Modelled from the spec: an event of the absent module. It has the three fields of every
  event and \<open>payload\<close>, the event's class with the fields that class declares (a value of
  a datatype with one constructor per event class; building an event with keyword
  arguments is the application of the constructor).
\<close>

record 'p domain_event =
  originator_id :: uuid
  originator_version :: int
  timestamp :: datetime
  payload :: 'p

text \<open>
  Modelled from the spec: an aggregate of the absent module, with \<^verbatim>\<open>id\<close>, \<^verbatim>\<open>version\<close>,
  \<^verbatim>\<open>created_on\<close>, \<^verbatim>\<open>modified_on\<close>, the fields its subclass defines, and the list of events
  pending persistence.
\<close>

record ('p, 'z) aggregate =
  aggregate_id :: uuid
  version :: int
  created_on :: datetime
  modified_on :: datetime
  subtype_fields :: 'z
  pending_events :: "'p domain_event list"

text \<open>
  What a subclass of \<^verbatim>\<open>Aggregate\<close> supplies: its \<^verbatim>\<open>__init__\<close>, which builds the subclass's
  fields from the fields of the creating event (and fails on an event of any other
  class), and the \<^verbatim>\<open>apply\<close> methods of its events, which update the subclass's fields.
  For the bank account both are in the source files.
\<close>

record ('p, 'z) aggregate_class =
  init_fields :: "'p \<Rightarrow> 'z option"
  apply_event :: "'p \<Rightarrow> 'z \<Rightarrow> 'z"

text \<open>
  Modelled from the spec: \<^verbatim>\<open>event.mutate(aggregate_or_none)\<close> of the absent module, the
  single fold primitive. Without an aggregate the event's version must be 1, with one it
  must be the aggregate's version plus one, else \<open>VersionError\<close>. Then \<open>version\<close> and
  \<open>modified_on\<close> are set from the event, \<open>created_on\<close> only on the first fold, and the
  event's \<^verbatim>\<open>apply\<close> updates the subclass's fields. The first fold builds the aggregate from
  the event; an event from which the subclass cannot be initialised is refused there
  (\<open>TypeError\<close>).
\<close>

fun mutate ::
  "('p, 'z) aggregate_class \<Rightarrow> 'p domain_event \<Rightarrow> ('p, 'z) aggregate option
     \<Rightarrow> error + ('p, 'z) aggregate" where
  "mutate cls e None =
     (if originator_version e \<noteq> 1 then Inl VersionError
      else
        (case init_fields cls (payload e) of
           None \<Rightarrow> Inl TypeError
         | Some z \<Rightarrow>
             Inr \<lparr>aggregate_id = originator_id e, version = originator_version e,
                  created_on = timestamp e, modified_on = timestamp e,
                  subtype_fields = apply_event cls (payload e) z, pending_events = []\<rparr>))"
| "mutate cls e (Some a) =
     (if originator_version e \<noteq> version a + 1 then Inl VersionError
      else
        Inr (a\<lparr>version := originator_version e, modified_on := timestamp e,
               subtype_fields := apply_event cls (payload e) (subtype_fields a)\<rparr>))"

text \<open>
  Modelled from the spec: \<^verbatim>\<open>Aggregate._create(event_class, id, **kwargs)\<close> builds the event
  with version 1 and the current time, folds it onto no aggregate and returns the new
  aggregate; the event is the first of the pending events (the test of the base class
  collects it).
\<close>

definition create ::
  "('p, 'z) aggregate_class \<Rightarrow> 'p \<Rightarrow> uuid \<Rightarrow> datetime \<Rightarrow> error + ('p, 'z) aggregate" where
  "create cls p i now =
     (let e = \<lparr>originator_id = i, originator_version = 1, timestamp = now, payload = p\<rparr>
      in case mutate cls e None of
           Inl err \<Rightarrow> Inl err
         | Inr a \<Rightarrow> Inr (a\<lparr>pending_events := pending_events a @ [e]\<rparr>))"

text \<open>
  Modelled from the spec: \<^verbatim>\<open>aggregate._trigger_event(event_class, **kwargs)\<close> builds the
  event with the aggregate's version plus one and the current time, folds it onto the
  aggregate in place and appends it to the pending events. The result pairs the exception
  raised, if any, with the aggregate as the call leaves it.
\<close>

definition trigger_event ::
  "('p, 'z) aggregate_class \<Rightarrow> ('p, 'z) aggregate \<Rightarrow> 'p \<Rightarrow> datetime
     \<Rightarrow> error option \<times> ('p, 'z) aggregate" where
  "trigger_event cls a p now =
     (let e = \<lparr>originator_id = aggregate_id a, originator_version = version a + 1,
               timestamp = now, payload = p\<rparr>
      in case mutate cls e (Some a) of
           Inl err \<Rightarrow> (Some err, a)
         | Inr a' \<Rightarrow> (None, a'\<lparr>pending_events := pending_events a' @ [e]\<rparr>))"

text \<open>
  Modelled from the spec: \<^verbatim>\<open>aggregate.collect_events()\<close> returns the pending events in
  insertion order and empties the list.
\<close>

definition collect_events ::
  "('p, 'z) aggregate \<Rightarrow> 'p domain_event list \<times> ('p, 'z) aggregate" where
  "collect_events a = (pending_events a, a\<lparr>pending_events := []\<rparr>)"

text \<open>
  A sequence of commands on one aggregate, for the statements about such sequences: each
  command triggers one event at its own time, and the first exception ends the sequence.
\<close>

fun trigger_events ::
  "('p, 'z) aggregate_class \<Rightarrow> ('p, 'z) aggregate \<Rightarrow> ('p \<times> datetime) list
     \<Rightarrow> error option \<times> ('p, 'z) aggregate" where
  "trigger_events cls a [] = (None, a)"
| "trigger_events cls a ((p, now) # cs) =
     (case trigger_event cls a p now of
        (Some err, a') \<Rightarrow> (Some err, a')
      | (None, a') \<Rightarrow> trigger_events cls a' cs)"

subsection \<open>The base class on its own\<close>

text \<open>
  Modelled from the spec: \<^verbatim>\<open>Aggregate\<close> with its own event classes \<^verbatim>\<open>Aggregate.Created\<close> and
  \<^verbatim>\<open>Aggregate.Event\<close>, which declare no field and whose \<^verbatim>\<open>apply\<close> does nothing, as
  \<^verbatim>\<open>test_aggregate_base_class\<close> uses them.
\<close>

datatype base_event = Created | Event

definition Aggregate :: "(base_event, unit) aggregate_class" where
  "Aggregate =
     \<lparr>init_fields = (\<lambda>p. case p of Created \<Rightarrow> Some () | Event \<Rightarrow> None),
      apply_event = (\<lambda>p z. z)\<rparr>"

text \<open>
  The two aggregates of that test: the one that \<^verbatim>\<open>Aggregate._create\<close> returns (identifier
  1, clock at 0), and the same after \<^verbatim>\<open>_trigger_event(Aggregate.Event)\<close> (clock at 1).
\<close>

definition base_created :: "(base_event, unit) aggregate" where
  "base_created =
     \<lparr>aggregate_id = 1, version = 1, created_on = 0, modified_on = 0, subtype_fields = (),
      pending_events =
        [\<lparr>originator_id = 1, originator_version = 1, timestamp = 0, payload = Created\<rparr>]\<rparr>"

definition base_triggered :: "(base_event, unit) aggregate" where
  "base_triggered =
     \<lparr>aggregate_id = 1, version = 2, created_on = 0, modified_on = 1, subtype_fields = (),
      pending_events =
        [\<lparr>originator_id = 1, originator_version = 1, timestamp = 0, payload = Created\<rparr>,
         \<lparr>originator_id = 1, originator_version = 2, timestamp = 1, payload = Event\<rparr>]\<rparr>"

section \<open>The bank account\<close>

text \<open>
  \<^verbatim>\<open>BankAccount\<close> is defined twice, in \<^verbatim>\<open>eventsourcing/examples/bankaccounts/domainmodel.py\<close>
  and in \<^verbatim>\<open>eventsourcing/tests/test_aggregate.py\<close>. The fields, \<^verbatim>\<open>__init__\<close>, the two checks,
  \<^verbatim>\<open>close\<close> and the \<^verbatim>\<open>apply\<close> methods read the same in both. They differ in the event
  \<^verbatim>\<open>TransactionAppended\<close>, which has the field \<^verbatim>\<open>transaction_id\<close> in the examples only, and
  in the assertion of \<^verbatim>\<open>set_overdraft_limit\<close>.
\<close>

record bank_account_fields =
  full_name :: string
  email_address :: string
  balance :: decimal
  overdraft_limit :: decimal
  is_closed :: bool

text \<open>
  The events with their fields: \<^verbatim>\<open>Opened(full_name, email_address)\<close>,
  \<^verbatim>\<open>TransactionAppended(amount, transaction_id)\<close>, \<^verbatim>\<open>OverdraftLimitSet(overdraft_limit)\<close> and
  \<^verbatim>\<open>Closed()\<close>. The type \<open>'t\<close> is that of \<^verbatim>\<open>transaction_id\<close>: \<open>uuid option\<close> in the examples
  (the command passes an \<^verbatim>\<open>Optional[UUID]\<close>), \<open>unit\<close> in the test module, where the event has
  no such field.
\<close>

datatype 't bank_event =
    Opened string string
  | TransactionAppended decimal 't
  | OverdraftLimitSet decimal
  | Closed

type_synonym 't account = "('t bank_event, bank_account_fields) aggregate"

text \<open>\<^verbatim>\<open>BankAccount.__init__\<close>, called with the fields of the \<^verbatim>\<open>Opened\<close> event.\<close>

fun BankAccount_init :: "'t bank_event \<Rightarrow> bank_account_fields option" where
  "BankAccount_init (Opened n e) =
     Some \<lparr>full_name = n, email_address = e, balance = 0, overdraft_limit = 0,
           is_closed = False\<rparr>"
| "BankAccount_init _ = None"

text \<open>The \<^verbatim>\<open>apply\<close> methods; \<^verbatim>\<open>Opened\<close> inherits the one that does nothing.\<close>

fun BankAccount_apply :: "'t bank_event \<Rightarrow> bank_account_fields \<Rightarrow> bank_account_fields" where
  "BankAccount_apply (TransactionAppended amount transaction_id) s =
     s\<lparr>balance := balance s + amount\<rparr>"
| "BankAccount_apply (OverdraftLimitSet limit) s = s\<lparr>overdraft_limit := limit\<rparr>"
| "BankAccount_apply Closed s = s\<lparr>is_closed := True\<rparr>"
| "BankAccount_apply (Opened n e) s = s"

definition BankAccount :: "('t bank_event, bank_account_fields) aggregate_class" where
  "BankAccount = \<lparr>init_fields = BankAccount_init, apply_event = BankAccount_apply\<rparr>"

definition open_account :: "string \<Rightarrow> string \<Rightarrow> uuid \<Rightarrow> datetime \<Rightarrow> error + 't account" where
  "open_account name email i now = create BankAccount (Opened name email) i now"

definition check_account_is_not_closed :: "'t account \<Rightarrow> error option" where
  "check_account_is_not_closed a =
     (if is_closed (subtype_fields a) then Some (AccountClosedError (aggregate_id a)) else None)"

definition check_has_sufficient_funds :: "'t account \<Rightarrow> decimal \<Rightarrow> error option" where
  "check_has_sufficient_funds a amount =
     (if balance (subtype_fields a) + amount < - overdraft_limit (subtype_fields a)
      then Some (InsufficientFundsError (aggregate_id a)) else None)"

definition close :: "'t account \<Rightarrow> datetime \<Rightarrow> error option \<times> 't account" where
  "close a now = trigger_event BankAccount a Closed now"

subsection \<open>\<^verbatim>\<open>eventsourcing/examples/bankaccounts/domainmodel.py\<close>\<close>


definition set_overdraft_limit ::
  "uuid option account \<Rightarrow> decimal \<Rightarrow> datetime \<Rightarrow> error option \<times> uuid option account" where
  "set_overdraft_limit a limit now =
     (if \<not> limit > 0 then (Some AssertionError, a)
      else
        (case check_account_is_not_closed a of
           Some err \<Rightarrow> (Some err, a)
         | None \<Rightarrow> trigger_event BankAccount a (OverdraftLimitSet limit) now))"

subsection \<open>\<^verbatim>\<open>eventsourcing/tests/test_aggregate.py\<close>\<close>

definition append_transaction_test ::
  "unit account \<Rightarrow> decimal \<Rightarrow> datetime \<Rightarrow> error option \<times> unit account" where
  "append_transaction_test a amount now =
     (case check_account_is_not_closed a of
        Some err \<Rightarrow> (Some err, a)
      | None \<Rightarrow>
          (case check_has_sufficient_funds a amount of
             Some err \<Rightarrow> (Some err, a)
           | None \<Rightarrow> trigger_event BankAccount a (TransactionAppended amount ()) now))"

definition set_overdraft_limit_test ::
  "unit account \<Rightarrow> decimal \<Rightarrow> datetime \<Rightarrow> error option \<times> unit account" where
  "set_overdraft_limit_test a limit now =
     (if \<not> limit \<ge> 0 then (Some AssertionError, a)
      else
        (case check_account_is_not_closed a of
           Some err \<Rightarrow> (Some err, a)
         | None \<Rightarrow> trigger_event BankAccount a (OverdraftLimitSet limit) now))"

text \<open>
  The commands of \<^verbatim>\<open>test_subclass_bank_account\<close>, each with the clock's reading at its
  call. The test catches the exception of a failed command and goes on, so a run keeps
  each command's outcome and continues with the account as it is.
\<close>

datatype command = AppendTransaction decimal | SetOverdraftLimit decimal | Close

fun execute_test :: "unit account \<Rightarrow> command \<times> datetime \<Rightarrow> error option \<times> unit account" where
  "execute_test a (AppendTransaction amount, now) = append_transaction_test a amount now"
| "execute_test a (SetOverdraftLimit limit, now) = set_overdraft_limit_test a limit now"
| "execute_test a (Close, now) = close a now"

fun run_test ::
  "unit account \<Rightarrow> (command \<times> datetime) list \<Rightarrow> error option list \<times> unit account" where
  "run_test a [] = ([], a)"
| "run_test a (c # cs) =
     (case execute_test a c of
        (r, a') \<Rightarrow> (case run_test a' cs of (rs, a'') \<Rightarrow> (r # rs, a'')))"

text \<open>
  \<^verbatim>\<open>test_subclass_bank_account\<close> up to the collection of the pending events: the account
  is opened with identifier \<open>i\<close>, and \<open>clock k\<close> is the clock's reading at step \<open>k\<close>.
\<close>

definition test_commands :: "(nat \<Rightarrow> datetime) \<Rightarrow> (command \<times> datetime) list" where
  "test_commands clock =
     [(AppendTransaction 10, clock 1),
      (AppendTransaction 10, clock 2),
      (AppendTransaction (- 15), clock 3),
      (AppendTransaction (- 15), clock 4),
      (SetOverdraftLimit 100, clock 5),
      (AppendTransaction (- 15), clock 6),
      (Close, clock 7),
      (AppendTransaction (- 15), clock 8)]"

definition test_subclass_bank_account ::
  "uuid \<Rightarrow> (nat \<Rightarrow> datetime) \<Rightarrow> error + error option list \<times> unit account" where
  "test_subclass_bank_account i clock =
     (case open_account ''Alice'' ''alice@example.com'' i (clock 0) of
        Inl err \<Rightarrow> Inl err
      | Inr a \<Rightarrow> Inr (run_test a (test_commands clock)))"

text \<open>
  Two accounts for concrete instances, of either variant: Alice's account as
  \<^verbatim>\<open>BankAccount.open\<close> returns it (identifier 1, clock at 0), and the same account after
  \<^verbatim>\<open>close()\<close> (clock at 1).
\<close>

definition alice_opened :: "'t account" where
  "alice_opened =
     \<lparr>aggregate_id = 1, version = 1, created_on = 0, modified_on = 0,
      subtype_fields =
        \<lparr>full_name = ''Alice'', email_address = ''alice@example.com'', balance = 0,
         overdraft_limit = 0, is_closed = False\<rparr>,
      pending_events =
        [\<lparr>originator_id = 1, originator_version = 1, timestamp = 0,
          payload = Opened ''Alice'' ''alice@example.com''\<rparr>]\<rparr>"

definition alice_closed :: "'t account" where
  "alice_closed =
     \<lparr>aggregate_id = 1, version = 2, created_on = 0, modified_on = 1,
      subtype_fields =
        \<lparr>full_name = ''Alice'', email_address = ''alice@example.com'', balance = 0,
         overdraft_limit = 0, is_closed = True\<rparr>,
      pending_events =
        [\<lparr>originator_id = 1, originator_version = 1, timestamp = 0,
          payload = Opened ''Alice'' ''alice@example.com''\<rparr>,
         \<lparr>originator_id = 1, originator_version = 2, timestamp = 1,
          payload = Closed\<rparr>]\<rparr>"

section \<open>The fold primitive and the version sequence\<close>

text \<open>
  C2: for every aggregate \<open>a\<close>, every event \<open>e\<close> and every aggregate class, \<open>mutate\<close> fails
  with \<open>VersionError\<close> whenever the event's version is not the aggregate's version plus
  one and, without an aggregate, whenever it is not 1, whatever else the aggregate holds;
  when the version is the next one, \<open>mutate\<close> does not fail with \<open>VersionError\<close>.
\<close>

theorem mutate_version_check:
  "(originator_version e \<noteq> version a + 1 \<longrightarrow> mutate cls e (Some a) = Inl VersionError) \<and>
   (originator_version e \<noteq> 1 \<longrightarrow> mutate cls e None = Inl VersionError) \<and>
   (originator_version e = version a + 1 \<longrightarrow> mutate cls e (Some a) \<noteq> Inl VersionError) \<and>
   (originator_version e = 1 \<longrightarrow> mutate cls e None \<noteq> Inl VersionError)"
  by (simp split: option.split)

text \<open>
  The instance of \<^verbatim>\<open>test_aggregate_base_class\<close>: an event with the aggregate's own version 2
  is refused, with or without the aggregate; the events with versions 3 and 1 pass the check.
\<close>

theorem mutate_version_check_witness:
  "originator_version \<lparr>originator_id = 1, originator_version = 2, timestamp = 2, payload = Event\<rparr>
     \<noteq> version base_triggered + 1 \<and>
   mutate Aggregate \<lparr>originator_id = 1, originator_version = 2, timestamp = 2, payload = Event\<rparr>
     (Some base_triggered) = Inl VersionError \<and>
   mutate Aggregate \<lparr>originator_id = 1, originator_version = 2, timestamp = 2, payload = Event\<rparr>
     None = Inl VersionError \<and>
   originator_version \<lparr>originator_id = 1, originator_version = 3, timestamp = 2, payload = Event\<rparr>
     = version base_triggered + 1 \<and>
   mutate Aggregate \<lparr>originator_id = 1, originator_version = 3, timestamp = 2, payload = Event\<rparr>
     (Some base_triggered) \<noteq> Inl VersionError \<and>
   mutate Aggregate \<lparr>originator_id = 1, originator_version = 1, timestamp = 0, payload = Created\<rparr>
     None \<noteq> Inl VersionError"
proof -
  have v: "version base_triggered = 2" by (simp add: base_triggered_def)
  show ?thesis
    using
      mutate_version_check [of "\<lparr>originator_id = 1, originator_version = 2, timestamp = 2, payload = Event\<rparr>"
        base_triggered Aggregate]
      mutate_version_check [of "\<lparr>originator_id = 1, originator_version = 3, timestamp = 2, payload = Event\<rparr>"
        base_triggered Aggregate]
      mutate_version_check [of "\<lparr>originator_id = 1, originator_version = 1, timestamp = 0, payload = Created\<rparr>"
        base_triggered Aggregate]
    by (simp add: v)
qed

text \<open>One triggered event: what it leaves of the aggregate's common fields.\<close>

lemma trigger_event_step:
  assumes "trigger_event cls a p now = (None, a')"
  shows "\<exists>e. pending_events a' = pending_events a @ [e] \<and>
             originator_version e = version a + 1 \<and> timestamp e = now \<and>
             version a' = version a + 1 \<and> created_on a' = created_on a \<and>
             modified_on a' = now"
  using assms by (auto simp: trigger_event_def)

text \<open>A sequence of triggered events, from any aggregate: induction on the sequence.\<close>

lemma trigger_events_fold:
  assumes "trigger_events cls a cs = (None, a')"
  shows "version a' = version a + int (length cs) \<and>
         created_on a' = created_on a \<and>
         modified_on a' = last (modified_on a # map snd cs) \<and>
         map originator_version (pending_events a') =
           map originator_version (pending_events a) @
             [version a + 1 .. version a + int (length cs)] \<and>
         map timestamp (pending_events a') = map timestamp (pending_events a) @ map snd cs"
  using assms
proof (induction cs arbitrary: a)
  case Nil
  then show ?case by simp
next
  case (Cons c cs)
  obtain p now where c: "c = (p, now)" by (cases c) auto
  from Cons.prems c obtain a1 where
    step: "trigger_event cls a p now = (None, a1)" and
    rest: "trigger_events cls a1 cs = (None, a')"
    by (auto split: prod.splits option.splits)
  from trigger_event_step [OF step] obtain e where e:
    "pending_events a1 = pending_events a @ [e]" "originator_version e = version a + 1"
    "timestamp e = now" "version a1 = version a + 1" "created_on a1 = created_on a"
    "modified_on a1 = now"
    by blast
  have up: "[version a + 1 .. version a + (1 + int (length cs))] =
      (version a + 1) # [version a + 1 + 1 .. version a + 1 + int (length cs)]"
    by (subst upto_rec1) (simp_all add: add.assoc)
  from Cons.IH [OF rest] e c up show ?case
    by (simp add: add.assoc)
qed

lemma create_fresh:
  assumes "create cls p i now = Inr a"
  shows "\<exists>e. pending_events a = [e] \<and> originator_version e = 1 \<and> timestamp e = now \<and>
             version a = 1 \<and> created_on a = now \<and> modified_on a = now"
  using assms by (auto simp: create_def Let_def split: option.splits sum.splits if_splits)

text \<open>
  C3: after one creation and \<open>n - 1\<close> triggered events, none of which fails, on a fresh
  aggregate of any class, the events have the versions \<open>1..n\<close>, the aggregate's version is
  \<open>n\<close>, \<open>created_on\<close> is the first event's timestamp and \<open>modified_on\<close> the timestamp of the
  event applied last. (The events are read from the pending list, which nothing has
  collected yet; \<open>now\<close> is the clock at the creation, and each command of \<open>cs\<close> comes with
  the clock at its call.)
\<close>

theorem valid_commands_version_and_timestamps:
  assumes "create cls p i now = Inr a0"
    and "trigger_events cls a0 cs = (None, a)"
  shows "version a = 1 + int (length cs) \<and>
         map originator_version (pending_events a) = [1 .. 1 + int (length cs)] \<and>
         created_on a = timestamp (hd (pending_events a)) \<and>
         modified_on a = timestamp (last (pending_events a)) \<and>
         created_on a = now \<and>
         modified_on a = last (now # map snd cs)"
proof -
  from create_fresh [OF assms(1)] obtain e where e:
    "pending_events a0 = [e]" "originator_version e = 1" "timestamp e = now"
    "version a0 = 1" "created_on a0 = now" "modified_on a0 = now"
    by blast
  have up: "[1 .. 1 + int (length cs)] = 1 # [1 + 1 .. 1 + int (length cs)]"
    by (subst upto_rec1) simp_all
  note f = trigger_events_fold [OF assms(2)]
  have ts: "map timestamp (pending_events a) = now # map snd cs"
    using f e by simp
  then have ne: "pending_events a \<noteq> []" by auto
  have "timestamp (hd (pending_events a)) = hd (map timestamp (pending_events a))"
    using ne by (simp add: hd_map)
  moreover have "timestamp (last (pending_events a)) = last (map timestamp (pending_events a))"
    using ne by (simp add: last_map)
  ultimately show ?thesis
    using f e up ts by simp
qed

lemma base_created_eq: "create Aggregate Created 1 0 = Inr base_created"
  by (simp add: create_def Aggregate_def base_created_def)

lemma base_triggered_eq:
  "trigger_events Aggregate base_created [(Event, 1)] = (None, base_triggered)"
  by (simp add: trigger_event_def Aggregate_def base_created_def base_triggered_def)

text \<open>The instance of \<^verbatim>\<open>test_aggregate_base_class\<close>: a creation and one triggered event.\<close>

theorem valid_commands_version_and_timestamps_witness:
  "create Aggregate Created 1 0 = Inr base_created \<and>
   trigger_events Aggregate base_created [(Event, 1)] = (None, base_triggered) \<and>
   version base_triggered = 2 \<and>
   map originator_version (pending_events base_triggered) = [1, 2] \<and>
   created_on base_triggered = 0 \<and>
   modified_on base_triggered = 1"
proof -
  note t = valid_commands_version_and_timestamps [OF base_created_eq base_triggered_eq]
  have up: "[1 .. 1 + int (length [(Event, 1 :: int)])] = [1, 2]"
    by (simp add: upto_rec1)
  from t have "version base_triggered = 2" by simp
  moreover from t up have "map originator_version (pending_events base_triggered) = [1, 2]"
    by simp
  moreover from t have "created_on base_triggered = 0" by simp
  moreover from t have "modified_on base_triggered = 1" by simp
  ultimately show ?thesis
    using base_created_eq base_triggered_eq by blast
qed

section \<open>The commands of the bank account\<close>

text \<open>
  Every event that a command of the bank account triggers is accepted: its version is the
  next one by construction.
\<close>

lemma trigger_event_BankAccount:
  "trigger_event BankAccount a p now =
     (None, a\<lparr>version := version a + 1, modified_on := now,
               subtype_fields := BankAccount_apply p (subtype_fields a),
               pending_events := pending_events a @
                 [\<lparr>originator_id = aggregate_id a, originator_version = version a + 1,
                   timestamp = now, payload = p\<rparr>]\<rparr>)"
  by (simp add: trigger_event_def BankAccount_def)

lemma open_account_eq:
  "open_account n e i t =
     Inr \<lparr>aggregate_id = i, version = 1, created_on = t, modified_on = t,
          subtype_fields = \<lparr>full_name = n, email_address = e, balance = 0,
                            overdraft_limit = 0, is_closed = False\<rparr>,
          pending_events = [\<lparr>originator_id = i, originator_version = 1, timestamp = t,
                             payload = Opened n e\<rparr>]\<rparr>"
  by (simp add: open_account_def create_def BankAccount_def)

lemmas test_command_defs =
  append_transaction_test_def set_overdraft_limit_test_def close_def
  check_account_is_not_closed_def check_has_sufficient_funds_def trigger_event_BankAccount

lemma alice_opened_eq: "open_account ''Alice'' ''alice@example.com'' 1 0 = Inr alice_opened"
  by (simp add: open_account_eq alice_opened_def)

lemma alice_closed_eq: "close alice_opened 1 = (None, alice_closed)"
  by (simp add: close_def trigger_event_BankAccount alice_opened_def alice_closed_def)

subsection \<open>The scenario of the test\<close>

text \<open>
  The whole run: the outcome of each of the eight commands and the account at the end,
  for any identifier and any clock.
\<close>

lemma scenario_eq:
  "test_subclass_bank_account i clock =
     Inr ([None, None, None, Some (InsufficientFundsError i), None, None, None,
           Some (AccountClosedError i)],
          \<lparr>aggregate_id = i, version = 7, created_on = clock 0, modified_on = clock 7,
           subtype_fields = \<lparr>full_name = ''Alice'', email_address = ''alice@example.com'',
                             balance = - 10, overdraft_limit = 100, is_closed = True\<rparr>,
           pending_events =
             [\<lparr>originator_id = i, originator_version = 1, timestamp = clock 0,
                payload = Opened ''Alice'' ''alice@example.com''\<rparr>,
              \<lparr>originator_id = i, originator_version = 2, timestamp = clock 1,
                payload = TransactionAppended 10 ()\<rparr>,
              \<lparr>originator_id = i, originator_version = 3, timestamp = clock 2,
                payload = TransactionAppended 10 ()\<rparr>,
              \<lparr>originator_id = i, originator_version = 4, timestamp = clock 3,
                payload = TransactionAppended (- 15) ()\<rparr>,
              \<lparr>originator_id = i, originator_version = 5, timestamp = clock 5,
                payload = OverdraftLimitSet 100\<rparr>,
              \<lparr>originator_id = i, originator_version = 6, timestamp = clock 6,
                payload = TransactionAppended (- 15) ()\<rparr>,
              \<lparr>originator_id = i, originator_version = 7, timestamp = clock 7,
                payload = Closed\<rparr>]\<rparr>)"
  by (simp add: test_subclass_bank_account_def test_commands_def open_account_eq
      test_command_defs)

text \<open>
  C4, as stated, at identifier 1 with the clock counting the steps: the scenario runs
  through, and the events collected at its end are not six.
\<close>

theorem scenario_six_events_counterexample:
  "\<not> isl (test_subclass_bank_account 1 int) \<and>
   length (fst (collect_events (snd (projr (test_subclass_bank_account 1 int))))) \<noteq> 6"
  by (simp add: scenario_eq collect_events_def)

text \<open>
  C4, amended: in the scenario of the bank account (open; +10.00; +10.00; -15.00; a failed
  -15.00; overdraft limit 100.00; -15.00; close; a failed -15.00) collecting the pending
  events yields exactly seven events in the order of their creation, with versions 1 to
  7: opened, +10, +10, -15, limit set, -15, closed, none for the two failed attempts; and
  collecting again yields none.
\<close>

theorem scenario_collects_seven_events:
  "\<exists>rs a pending a'.
     test_subclass_bank_account i clock = Inr (rs, a) \<and>
     collect_events a = (pending, a') \<and>
     length pending = 7 \<and>
     map payload pending =
       [Opened ''Alice'' ''alice@example.com'',
        TransactionAppended 10 (),
        TransactionAppended 10 (),
        TransactionAppended (- 15) (),
        OverdraftLimitSet 100,
        TransactionAppended (- 15) (),
        Closed] \<and>
     map originator_version pending = [1, 2, 3, 4, 5, 6, 7] \<and>
     fst (collect_events a') = []"
  by (simp add: scenario_eq collect_events_def)

theorem scenario_collects_seven_events_witness:
  "length (fst (collect_events (snd (projr (test_subclass_bank_account 1 int))))) = 7 \<and>
   fst (collect_events (snd (collect_events (snd (projr (test_subclass_bank_account 1 int)))))) = []"
  using scenario_collects_seven_events [of 1 int] by auto

subsection \<open>Failed preconditions\<close>




subsection \<open>The overdraft limit of zero\<close>

text \<open>
  C9, as stated, fails for the variant of the test module on a closed account: Alice's
  account, opened and then closed, refuses the limit 0.00 with \<open>AccountClosedError\<close>.
\<close>

theorem zero_overdraft_limit_closed_counterexample:
  "open_account ''Alice'' ''alice@example.com'' 1 0 = Inr alice_opened \<and>
   close alice_opened 1 = (None, alice_closed) \<and>
   set_overdraft_limit_test alice_closed 0 2 = (Some (AccountClosedError 1), alice_closed)"
  by (simp add: alice_opened_eq alice_closed_eq set_overdraft_limit_test_def
      check_account_is_not_closed_def) (simp add: alice_closed_def)

text \<open>
  C9, amended: the two variants disagree on an overdraft limit of zero. In the examples
  package \<^verbatim>\<open>set_overdraft_limit(Decimal('0.00'))\<close> fails on every account (the limit must be
  strictly positive) and leaves it unchanged. In the test module the limit 0.00 passes the
  check (zero or more is allowed): on an account that is not closed the call succeeds and
  triggers an \<open>OverdraftLimitSet\<close> event; on a closed account it fails with
  \<open>AccountClosedError\<close> and leaves the account unchanged.
\<close>

theorem zero_overdraft_limit_variants:
  "set_overdraft_limit a 0 now = (Some AssertionError, a) \<and>
   (\<not> is_closed (subtype_fields b) \<longrightarrow>
      set_overdraft_limit_test b 0 now =
        (None, b\<lparr>version := version b + 1, modified_on := now,
                  subtype_fields := (subtype_fields b)\<lparr>overdraft_limit := 0\<rparr>,
                  pending_events := pending_events b @
                    [\<lparr>originator_id = aggregate_id b, originator_version = version b + 1,
                      timestamp = now, payload = OverdraftLimitSet 0\<rparr>]\<rparr>)) \<and>
   (is_closed (subtype_fields b) \<longrightarrow>
      set_overdraft_limit_test b 0 now = (Some (AccountClosedError (aggregate_id b)), b))"
  by (simp add: set_overdraft_limit_def set_overdraft_limit_test_def
      check_account_is_not_closed_def trigger_event_BankAccount)

theorem zero_overdraft_limit_variants_witness:
  "\<not> is_closed (subtype_fields (alice_opened :: unit account)) \<and>
   set_overdraft_limit alice_opened 0 2 = (Some AssertionError, alice_opened) \<and>
   fst (set_overdraft_limit_test alice_opened 0 2) = None \<and>
   map payload (pending_events (snd (set_overdraft_limit_test alice_opened 0 2))) =
     [Opened ''Alice'' ''alice@example.com'', OverdraftLimitSet 0] \<and>
   is_closed (subtype_fields (alice_closed :: unit account)) \<and>
   set_overdraft_limit alice_closed 0 2 = (Some AssertionError, alice_closed)"
proof -
  have opened: "\<not> is_closed (subtype_fields (alice_opened :: unit account))"
    by (simp add: alice_opened_def)
  have closed: "is_closed (subtype_fields (alice_closed :: unit account))"
    by (simp add: alice_closed_def)
  have pending: "map payload (pending_events (alice_opened :: unit account)) =
      [Opened ''Alice'' ''alice@example.com'']"
    by (simp add: alice_opened_def)
  show ?thesis
    using opened closed zero_overdraft_limit_variants [of alice_opened 2 alice_opened]
      zero_overdraft_limit_variants [of alice_closed 2 alice_closed]
    by (simp add: pending)
qed

subsection \<open>Closing an account\<close>

text \<open>
  C10: \<^verbatim>\<open>close()\<close> checks nothing. On every account, closed or not, of either variant of
  the class, it succeeds, appends exactly one \<open>Closed\<close> event to the pending events,
  advances the version by one and leaves \<open>is_closed\<close> true.
\<close>

theorem close_has_no_precondition:
  "\<exists>e a'.
     close a now = (None, a') \<and>
     pending_events a' = pending_events a @ [e] \<and>
     e = \<lparr>originator_id = aggregate_id a, originator_version = version a + 1,
          timestamp = now, payload = Closed\<rparr> \<and>
     version a' = version a + 1 \<and>
     is_closed (subtype_fields a') \<and>
     a' = a\<lparr>version := version a + 1, modified_on := now,
            subtype_fields := (subtype_fields a)\<lparr>is_closed := True\<rparr>,
            pending_events := pending_events a @ [e]\<rparr>"
  by (simp add: close_def trigger_event_BankAccount)

text \<open>The instance of an account that is closed already: a second \<open>Closed\<close> event.\<close>

theorem close_has_no_precondition_witness:
  "is_closed (subtype_fields (alice_closed :: uuid option account)) \<and>
   fst (close (alice_closed :: uuid option account) 2) = None \<and>
   version (snd (close (alice_closed :: uuid option account) 2)) = 3 \<and>
   map payload (pending_events (snd (close (alice_closed :: uuid option account) 2))) =
     [Opened ''Alice'' ''alice@example.com'', Closed, Closed] \<and>
   is_closed (subtype_fields (snd (close (alice_closed :: uuid option account) 2)))"
proof -
  let ?a = "alice_closed :: uuid option account"
  have closed: "is_closed (subtype_fields ?a)"
    by (simp add: alice_closed_def)
  have pending: "map payload (pending_events ?a) =
      [Opened ''Alice'' ''alice@example.com'', Closed]"
    by (simp add: alice_closed_def)
  have ver: "version ?a = 2" by (simp add: alice_closed_def)
  obtain e a' where "close ?a 2 = (None, a')"
    and "pending_events a' = pending_events ?a @ [e]"
    and "payload e = Closed"
    and "version a' = version ?a + 1"
    and "is_closed (subtype_fields a')"
    using close_has_no_precondition [of ?a 2] by auto
  with closed pending ver show ?thesis by simp
qed

end
